theory Spec2Isabelle
  imports Main "HOL-Library.Word" "HOL-Library.Char_ord" "HOL-Library.List_Lexorder"
    "HOL-Library.Sublist"
begin

section \<open>Script values as the program observes them\<close>

text \<open>
  \<^verbatim>\<open>source.cpp\<close> never looks inside a \<^verbatim>\<open>QJSValue\<close>: it calls the accessors
  \<^verbatim>\<open>isUndefined()\<close>, \<^verbatim>\<open>isObject()\<close>, \<^verbatim>\<open>isError()\<close>, \<^verbatim>\<open>toString()\<close>, \<^verbatim>\<open>toInt()\<close>,
  \<^verbatim>\<open>toUInt()\<close>, \<^verbatim>\<open>property(name)\<close>, \<^verbatim>\<open>property(index)\<close> and walks the value with a
  \<^verbatim>\<open>QJSValueIterator\<close>. A value is therefore represented by what these accessors
  return: the three tests, the three conversions (\<^verbatim>\<open>qint32\<close> and \<^verbatim>\<open>quint32\<close> as 32-bit
  words), the names the iterator enumerates, in its order, and the properties that can be
  read by name. Every value the script runtime can hand to the program has such a
  representation, so a statement proved for all representations holds for all values.

  Strings (\<^verbatim>\<open>QString\<close>, \<^verbatim>\<open>QByteArray\<close>) are lists of 8-bit characters.
\<close>

datatype jsvalue = JSValue
  (isUndefined: bool)
  (isObject: bool)
  (isError: bool)
  (toString: string)
  (toInt: "32 word")
  (toUInt: "32 word")
  (iterNames: "string list")
  (props: "(string \<times> jsvalue) list")

text \<open>
  The default-constructed \<^verbatim>\<open>QJSValue()\<close> is the script value \<^verbatim>\<open>undefined\<close>; its string
  conversion is the text \<^verbatim>\<open>undefined\<close> and its numeric conversions are 0.
\<close>

definition undefinedValue :: jsvalue where
  "undefinedValue = JSValue True False False ''undefined'' 0 0 [] []"

text \<open>
  \<^verbatim>\<open>QJSValue::property(name)\<close>: the undefined value when the receiver is not an object or
  has no property of that name.
\<close>

definition property :: "jsvalue \<Rightarrow> string \<Rightarrow> jsvalue" where
  "property v name =
     (if isObject v
      then (case map_of (props v) name of Some x \<Rightarrow> x | None \<Rightarrow> undefinedValue)
      else undefinedValue)"

text \<open>\<^verbatim>\<open>QString::number\<close> of an unsigned and of a signed integer: decimal digits.\<close>

definition digitChar :: "nat \<Rightarrow> char" where
  "digitChar d = char_of (48 + d)"

fun number :: "nat \<Rightarrow> string" where
  "number n = (if n < 10 then [digitChar n] else number (n div 10) @ [digitChar (n mod 10)])"

declare number.simps [simp del]

definition numberInt :: "int \<Rightarrow> string" where
  "numberInt i = (if i < 0 then CHR ''-'' # number (nat (- i)) else number (nat i))"

text \<open>
  \<^verbatim>\<open>QJSValue::property(quint32 arrayIndex)\<close>: the property whose name is the index written
  in decimal.
\<close>

definition propertyAt :: "jsvalue \<Rightarrow> nat \<Rightarrow> jsvalue" where
  "propertyAt v i = property v (number i)"

text \<open>
  \<^verbatim>\<open>QJSValueIterator\<close>: the enumerated names in order, each with the value
  \<^verbatim>\<open>it.value()\<close> reads for it.
\<close>

definition iterate :: "jsvalue \<Rightarrow> (string \<times> jsvalue) list" where
  "iterate v = map (\<lambda>n. (n, property v n)) (iterNames v)"

lemma unat_inc:
  fixes i n :: "32 word"
  assumes "i < n"
  shows "unat (i + 1) = Suc (unat i)"
proof -
  have "unat i < unat n" using assms by (simp add: word_less_nat_alt)
  moreover have "unat n < 2 ^ 32" using unsigned_less [of n] by simp
  ultimately have "unat i + 1 < 2 ^ 32" by linarith
  then show ?thesis by (simp add: unat_word_ariths)
qed

text \<open>
  Modelled from the spec: \<^verbatim>\<open>jsToStringList\<close> of \<^verbatim>\<open>js-helpers.h\<close>, whose body is not among
  the sources. The spec describes \<^verbatim>\<open>tokens\<close> and the CSRF \<^verbatim>\<open>fields\<close> as ordered lists
  of strings: the elements \<^verbatim>\<open>0 .. length - 1\<close> of the value, each converted to a string.
\<close>

function jsToStringListLoop :: "jsvalue \<Rightarrow> 32 word \<Rightarrow> 32 word \<Rightarrow> string list \<Rightarrow> string list" where
  "jsToStringListLoop val i len res =
     (if i < len
      then jsToStringListLoop val (i + 1) len (res @ [toString (propertyAt val (unat i))])
      else res)"
  by pat_completeness auto
termination
  by (relation "measure (\<lambda>(val, i, len, res). unat len - unat i)")
    (auto simp: unat_inc word_less_nat_alt)

declare jsToStringListLoop.simps [simp del]

definition jsToStringList :: "jsvalue \<Rightarrow> string list" where
  "jsToStringList val = jsToStringListLoop val 0 (toUInt (property val ''length'')) []"

section \<open>Authentication fields and strategies\<close>

text \<open>
  Modelled from the spec: the classes of \<^verbatim>\<open>auth/*.h\<close>, which are declared outside
  \<^verbatim>\<open>source.cpp\<close>. The spec has a field be a text field (id, key, password or not,
  default), a constant field (key, value) or a hash field (key, algorithm, salt), and an
  Auth be one of five variants that own their field list. Each object is represented by
  its constructor applied to the arguments \<^verbatim>\<open>source.cpp\<close> passes, in the order it passes
  them.
\<close>

datatype fieldType = Text | Password

datatype algorithm = Md5 | Sha1

datatype authField =
    AuthField (fieldId: string) (fieldKey: string) (fieldKind: fieldType) (fieldDef: string)
  | AuthConstField (constKey: string) (constValue: string)
  | AuthHashField (hashKey: string) (hashAlgo: algorithm) (hashSalt: string)

datatype auth =
    OAuth2Auth string jsvalue
  | OAuth1Auth string jsvalue
  | HttpBasicAuth string int string
  | HttpAuth string string "authField list" string string string "string list"
  | UrlAuth string "authField list" int

text \<open>One pass of the loop over \<^verbatim>\<open>auth.fields\<close> (lines 128--144).\<close>

definition buildField :: "jsvalue \<Rightarrow> authField" where
  "buildField field =
     (let fid = (if \<not> isUndefined (property field ''id'')
                 then toString (property field ''id'') else '''');
          key = (if \<not> isUndefined (property field ''key'')
                 then toString (property field ''key'') else '''');
          type = toString (property field ''type'')
      in if type = ''hash'' then
           (let algoStr = toString (property field ''hash'');
                algo = (if algoStr = ''sha1'' then Sha1 else Md5)
            in AuthHashField key algo (toString (property field ''salt'')))
         else if type = ''const'' then
           (let val = toString (property field ''value'')
            in AuthConstField key val)
         else
           (let def = (if \<not> isUndefined (property field ''def'')
                       then toString (property field ''def'') else '''')
            in AuthField fid key (if type = ''password'' then Password else Text) def))"

text \<open>The loop \<^verbatim>\<open>for (quint32 i = 0; i < length; ++i)\<close> of lines 127--145.\<close>

function buildFields :: "jsvalue \<Rightarrow> 32 word \<Rightarrow> 32 word \<Rightarrow> authField list \<Rightarrow> authField list" where
  "buildFields jsFields i len fields =
     (if i < len
      then buildFields jsFields (i + 1) len
             (fields @ [buildField (propertyAt jsFields (unat i))])
      else fields)"
  by pat_completeness auto
termination
  by (relation "measure (\<lambda>(jsFields, i, len, fields). unat len - unat i)")
    (auto simp: unat_inc word_less_nat_alt)

declare buildFields.simps [simp del]

text \<open>
  The body of the loop over the \<^verbatim>\<open>auth\<close> object (lines 109--161): from one scheme node
  to the \<^verbatim>\<open>Auth *ret\<close>, \<open>None\<close> for the null pointer \<^verbatim>\<open>ret\<close> starts as.
\<close>

definition buildAuth :: "jsvalue \<Rightarrow> auth option" where
  "buildAuth auth =
     (let type = toString (property auth ''type'');
          check = property auth ''check'';
          checkType = (if isObject check then toString (property check ''type'') else '''')
      in if type = ''oauth2'' then Some (OAuth2Auth type auth)
         else if type = ''oauth1'' then Some (OAuth1Auth type auth)
         else if type = ''http_basic'' then
           (let maxPage = (if checkType = ''max_page''
                           then sint (toInt (property check ''value'')) else 0);
                passwordType = toString (property auth ''passwordType'')
            in Some (HttpBasicAuth type maxPage passwordType))
         else
           (let jsFields = property auth ''fields'';
                len = toUInt (property jsFields ''length'');
                fields = buildFields jsFields 0 len []
            in if type = ''get'' \<or> type = ''post'' then
                 (let url = toString (property auth ''url'');
                      cookie = (if checkType = ''cookie''
                                then toString (property check ''key'') else '''');
                      redirectUrl = (if checkType = ''redirect''
                                     then toString (property check ''url'') else '''');
                      csrf = property auth ''csrf'';
                      csrfUrl = (if isObject csrf
                                 then toString (property csrf ''url'') else '''');
                      csrfFields = (if isObject csrf
                                    then jsToStringList (property csrf ''fields'') else [])
                  in Some (HttpAuth type url fields cookie redirectUrl csrfUrl csrfFields))
               else
                 (let maxPage = (if checkType = ''max_page''
                                 then sint (toInt (property check ''value'')) else 0)
                  in Some (UrlAuth type fields maxPage))))"

text \<open>
  The body of the loop over the \<^verbatim>\<open>auth\<close> object after the build (lines 163--165):
  \<^verbatim>\<open>if (ret != nullptr) m_auths.insert(id, ret)\<close>. \<^verbatim>\<open>m_auths\<close> is a
  \<^verbatim>\<open>QMap<QString, Auth*>\<close>, and \<^verbatim>\<open>QMap::insert\<close> replaces the value of a key that is
  already present.
\<close>

definition insertAuth :: "(string \<rightharpoonup> auth) \<Rightarrow> string \<Rightarrow> auth option \<Rightarrow> (string \<rightharpoonup> auth)" where
  "insertAuth auths schemeId ret =
     (case ret of None \<Rightarrow> auths | Some a \<Rightarrow> auths(schemeId \<mapsto> a))"

text \<open>The loop \<^verbatim>\<open>while (authIt.hasNext())\<close> of lines 103--166.\<close>

fun readAuths :: "(string \<times> jsvalue) list \<Rightarrow> (string \<rightharpoonup> auth) \<Rightarrow> (string \<rightharpoonup> auth)" where
  "readAuths [] auths = auths"
| "readAuths ((schemeId, auth) # rest) auths =
     readAuths rest (insertAuth auths schemeId (buildAuth auth))"

section \<open>Text files of the source directory\<close>

abbreviation LF :: char where "LF \<equiv> CHR 0x0A"
abbreviation CR :: char where "CR \<equiv> CHR 0x0D"

text \<open>
  \<^verbatim>\<open>QString(const QByteArray &)\<close> decodes UTF-8 and \<^verbatim>\<open>QString::toLatin1\<close> encodes
  Latin-1. On 7-bit text both leave every character as it is; the files of a source
  directory are taken to be such text, and both conversions are the identity on it.
\<close>

definition fromUtf8 :: "string \<Rightarrow> string" where
  "fromUtf8 bytes = bytes"


text \<open>
  \<^verbatim>\<open>replace(before, after)\<close> of \<^verbatim>\<open>QByteArray\<close> and \<^verbatim>\<open>QString\<close>: every occurrence of
  the text \<open>pat\<close>, found from left to right without overlap, becomes \<open>rep\<close>. The program
  calls it with the non-empty literals \<^verbatim>\<open>"export var source = "\<close> and \<^verbatim>\<open>"\r"\<close> only; for
  an empty \<open>pat\<close> the text is returned as it is.
\<close>

function replace :: "string \<Rightarrow> string \<Rightarrow> string \<Rightarrow> string" where
  "replace pat rep [] = []"
| "replace pat rep (c # cs) =
     (if pat \<noteq> [] \<and> prefix pat (c # cs)
      then rep @ replace pat rep (drop (length pat) (c # cs))
      else c # replace pat rep cs)"
  by pat_completeness auto
termination
  by (relation "measure (\<lambda>(pat, rep, s). length s)") auto

declare replace.simps(2) [simp del]

text \<open>\<^verbatim>\<open>QString::split(sep)\<close> on a one-character separator, every part kept.\<close>

fun split :: "char \<Rightarrow> string \<Rightarrow> string list" where
  "split sep [] = [[]]"
| "split sep (c # cs) =
     (if c = sep then [] # split sep cs
      else (case split sep cs of [] \<Rightarrow> [[c]] | part # parts \<Rightarrow> (c # part) # parts))"


text \<open>\<^verbatim>\<open>QStringList::join(sep)\<close>.\<close>

fun join :: "string \<Rightarrow> string list \<Rightarrow> string" where
  "join sep [] = []"
| "join sep [x] = x"
| "join sep (x # y # ys) = x @ sep @ join sep (y # ys)"



text \<open>
  \<^verbatim>\<open>QByteArray::trimmed\<close>: the white space it strips from both ends is
  \<^verbatim>\<open>\t \n \v \f \r\<close> and the space.
\<close>

definition isSpace :: "char \<Rightarrow> bool" where
  "isSpace c = (c \<in> {CHR 0x09, CHR 0x0A, CHR 0x0B, CHR 0x0C, CHR 0x0D, CHR 0x20})"

definition trimmed :: "string \<Rightarrow> string" where
  "trimmed s = rev (dropWhile isSpace (rev (dropWhile isSpace s)))"

text \<open>
  \<^verbatim>\<open>QFile::readLine\<close> on a file opened with \<^verbatim>\<open>QIODevice::Text\<close>: the bytes up to and
  with the next \<^verbatim>\<open>\n\<close> (all that is left when there is none), a \<^verbatim>\<open>\r\n\<close> at the end of
  the line read as \<^verbatim>\<open>\n\<close>; and what is left of the file after it.
\<close>

definition readLine :: "string \<Rightarrow> string \<times> string" where
  "readLine data =
     (let line = takeWhile (\<lambda>c. c \<noteq> LF) data
      in case dropWhile (\<lambda>c. c \<noteq> LF) data of
           [] \<Rightarrow> (line, [])
         | nl # rest \<Rightarrow>
             ((if line \<noteq> [] \<and> last line = CR then butlast line else line) @ [LF], rest))"

lemma snd_readLine: "snd (readLine data) = tl (dropWhile (\<lambda>c. c \<noteq> LF) data)"
proof (cases "dropWhile (\<lambda>c. c \<noteq> LF) data")
  case Nil
  then show ?thesis
    unfolding readLine_def Let_def by (simp only: list.case snd_conv list.sel)
next
  case (Cons nl rest)
  then show ?thesis
    unfolding readLine_def Let_def by (simp only: list.case snd_conv list.sel)
qed

lemma readLine_shorter:
  assumes "data \<noteq> []"
  shows "length (snd (readLine data)) < length data"
proof -
  have le: "length (dropWhile (\<lambda>c. c \<noteq> LF) data) \<le> length data"
    by (rule length_dropWhile_le)
  show ?thesis
  proof (cases "dropWhile (\<lambda>c. c \<noteq> LF) data")
    case Nil
    then have "snd (readLine data) = []" by (simp only: snd_readLine list.sel)
    with assms show ?thesis by simp
  next
    case (Cons nl rest)
    then have "snd (readLine data) = rest" by (simp only: snd_readLine list.sel)
    with le Cons show ?thesis by simp
  qed
qed

text \<open>
  The loops \<^verbatim>\<open>while (!f.atEnd())\<close> of lines 177--185 and 194--200: read a line, trim
  it, skip it when nothing is left, append it otherwise.
\<close>

function readLines :: "string \<Rightarrow> string list \<Rightarrow> string list" where
  "readLines data lines =
     (if data = [] then lines
      else if fromUtf8 (trimmed (fst (readLine data))) = []
           then readLines (snd (readLine data)) lines
           else readLines (snd (readLine data))
                  (lines @ [fromUtf8 (trimmed (fst (readLine data)))]))"
  by pat_completeness auto
termination
  by (relation "measure (\<lambda>(data, lines). length data)") (auto simp: readLine_shorter)

declare readLines.simps [simp del]

section \<open>The source directory and the process-wide state\<close>

text \<open>
  Modelled from the spec: \<^verbatim>\<open>ReadWritePath\<close> (the type of \<^verbatim>\<open>m_dir\<close>) and \<^verbatim>\<open>writeFile\<close> of
  \<^verbatim>\<open>functions.h\<close>, which are not among the sources. The spec describes the endpoint list
  as one persisted flat text file that add and remove read, change and write back, an
  operation failing when the list cannot be read or cannot be written. The directory is
  represented by what the program reads from it: the name of the directory, the paths it
  passes on, and for each file the bytes it holds (\<open>None\<close> when the file cannot be opened;
  for \<^verbatim>\<open>model.js\<close> also when it does not exist), and whether \<^verbatim>\<open>sites.txt\<close> can be
  written.
\<close>

record readWritePath =
  diskName :: string
  helperJsPath :: string
  modelJsPath :: string
  modelJs :: "string option"
  sitesTxt :: "string option"
  sitesTxtWritable :: bool
  supportedTxt :: "string option"


text \<open>
  The script runtime is outside the program: an engine is what \<^verbatim>\<open>evaluate(program,
  fileName)\<close> returns. \<^verbatim>\<open>buildJsEngine\<close> of \<^verbatim>\<open>js-helpers.h\<close>, which makes the engine from
  the path of \<^verbatim>\<open>helper.js\<close>, is a parameter of the functions that need it.
\<close>

datatype qjsEngine = QJSEngine (evaluate: "string \<Rightarrow> string \<Rightarrow> jsvalue")

datatype qmutex = Unlocked | Locked

datatype logLevel = Debug | Info | Warning | Error

text \<open>
  The state shared by every \<^verbatim>\<open>Source\<close> of the process: the two function-local statics
  \<^verbatim>\<open>engine\<close> and \<^verbatim>\<open>mutex\<close> of lines 36 and 46 (\<open>None\<close> for \<^verbatim>\<open>nullptr\<close>) and the lines
  written by \<^verbatim>\<open>log\<close>, each with its level.
\<close>

record process =
  engine :: "qjsEngine option"
  mutex :: "qmutex option"
  logged :: "(logLevel \<times> string) list"

text \<open>
  Modelled from the spec: \<^verbatim>\<open>log\<close> of \<^verbatim>\<open>logger.h\<close>, which is not among the sources; the
  spec has errors recorded with their message, and a call without a level is
  informational.
\<close>

definition logMsg :: "string \<Rightarrow> logLevel \<Rightarrow> process \<Rightarrow> process" where
  "logMsg msg level p = p\<lparr>logged := logged p @ [(level, msg)]\<rparr>"

text \<open>\<^verbatim>\<open>Source::jsEngine\<close> (lines 34--43).\<close>

definition jsEngine :: "(string \<Rightarrow> qjsEngine) \<Rightarrow> readWritePath \<Rightarrow> process \<Rightarrow> qjsEngine \<times> process" where
  "jsEngine buildJsEngine dir p =
     (case engine p of
        None \<Rightarrow> (let e = buildJsEngine (helperJsPath dir) in (e, p\<lparr>engine := Some e\<rparr>))
      | Some e \<Rightarrow> (e, p))"

text \<open>\<^verbatim>\<open>Source::jsEngineMutex\<close> (lines 44--53); a new \<^verbatim>\<open>QMutex\<close> is unlocked.\<close>

definition jsEngineMutex :: "process \<Rightarrow> qmutex \<times> process" where
  "jsEngineMutex p =
     (case mutex p of
        None \<Rightarrow> (Unlocked, p\<lparr>mutex := Some Unlocked\<rparr>)
      | Some m \<Rightarrow> (m, p))"

section \<open>The Source\<close>

text \<open>
  Modelled from the spec: the classes \<^verbatim>\<open>Api\<close>, \<^verbatim>\<open>JavascriptApi\<close>, \<^verbatim>\<open>Site\<close> and
  \<^verbatim>\<open>TagNameFormat\<close>, declared outside \<^verbatim>\<open>source.cpp\<close>. An Api is opaque but for its name,
  one per key of \<^verbatim>\<open>apis\<close>: it is represented by the document and the name its
  constructor receives (the engine and the mutex it also receives are the process-wide
  ones). A Site is represented by the URL it is made from, which \<^verbatim>\<open>url()\<close> returns. The
  tag format of a Source whose document has none is lower case with an empty separator.
\<close>

datatype api = JavascriptApi (apiSource: jsvalue) (getName: string)

datatype site = Site (url: string)

datatype caseFormat = Lower | UpperFirst | Upper | Caps

datatype tagNameFormat = TagNameFormat caseFormat string

definition caseAssoc :: "(string \<times> caseFormat) list" where
  "caseAssoc = [(''lower'', Lower), (''upper_first'', UpperFirst), (''upper'', Upper),
     (''caps'', Caps)]"

record source =
  m_dir :: readWritePath
  m_diskName :: string
  m_jsSource :: jsvalue
  m_name :: string
  m_additionalTokens :: "string list"
  m_apis :: "api list"
  m_tagNameFormat :: tagNameFormat
  m_auths :: "string \<rightharpoonup> auth"
  m_sites :: "site list"
  m_supportedSites :: "string list"

text \<open>
  The members as they are before the body of the constructor runs (line 56 and the
  default constructors). \<^verbatim>\<open>m_profile\<close> and \<^verbatim>\<open>m_updater\<close> are stored and never read in
  \<^verbatim>\<open>source.cpp\<close>; they are left out.
\<close>

definition initialSource :: "readWritePath \<Rightarrow> source" where
  "initialSource dir =
     \<lparr>m_dir = dir, m_diskName = diskName dir, m_jsSource = undefinedValue, m_name = [],
      m_additionalTokens = [], m_apis = [], m_tagNameFormat = TagNameFormat Lower [],
      m_auths = Map.empty, m_sites = [], m_supportedSites = []\<rparr>"

text \<open>The program text handed to the runtime (line 72).\<close>

definition modelProgram :: "string \<Rightarrow> string" where
  "modelProgram bytes =
     fromUtf8 (''(function() { var window = {}; ''
       @ replace ''export var source = '' ''return '' bytes @ '' })()'')"

text \<open>The loop over \<^verbatim>\<open>apis\<close> (lines 85--88).\<close>

fun readApis :: "jsvalue \<Rightarrow> (string \<times> jsvalue) list \<Rightarrow> api list \<Rightarrow> process \<Rightarrow> api list \<times> process" where
  "readApis jsSource [] apis p = (apis, p)"
| "readApis jsSource ((name, v) # rest) apis p =
     readApis jsSource rest (apis @ [JavascriptApi jsSource name]) (snd (jsEngineMutex p))"

text \<open>
  Lines 70--75: \<^verbatim>\<open>model.js\<close> exists and opens, \<open>bytes\<close> being what \<^verbatim>\<open>js.readAll()\<close>
  returns; the engine is fetched and the program evaluated.
\<close>

definition evaluateModel :: "(string \<Rightarrow> qjsEngine) \<Rightarrow> string \<Rightarrow> source \<Rightarrow> process \<Rightarrow> jsvalue \<times> process" where
  "evaluateModel buildJsEngine bytes s p0 =
     (let p1 = logMsg (''Using Javascript model for '' @ m_diskName s) Debug p0;
          src = modelProgram bytes;
          (eng, p2) = jsEngine buildJsEngine (m_dir s) p1
      in (evaluate eng src (modelJsPath (m_dir s)), p2))"

text \<open>Lines 70--169: the constructor when \<^verbatim>\<open>model.js\<close> exists and opens.\<close>

definition loadModel :: "(string \<Rightarrow> qjsEngine) \<Rightarrow> string \<Rightarrow> source \<Rightarrow> process \<Rightarrow> source \<times> process" where
  "loadModel buildJsEngine bytes s p0 =
     (let (jsSource, p2) = evaluateModel buildJsEngine bytes s p0;
          s1 = s\<lparr>m_jsSource := jsSource\<rparr>
      in if isError jsSource then
           (s1, logMsg (''Uncaught exception at line ''
                          @ numberInt (sint (toInt (property jsSource ''lineNumber'')))
                          @ '': '' @ toString jsSource) Error p2)
         else
           (let name = toString (property jsSource ''name'');
                tokens = jsToStringList (property jsSource ''tokens'');
                (apis, p3) = readApis jsSource (iterate (property jsSource ''apis'')) (m_apis s1) p2;
                p4 = (if apis = []
                      then logMsg (''No valid source has been found in the model.js file from ''
                                     @ name @ ''.'') Info p3
                      else p3);
                tagFormat = property jsSource ''tagFormat'';
                tagNameFormat =
                  (if \<not> isUndefined tagFormat
                   then TagNameFormat
                          (case map_of caseAssoc (toString (property tagFormat ''case'')) of
                             Some caseFormat \<Rightarrow> caseFormat | None \<Rightarrow> Lower)
                          (toString (property tagFormat ''wordSeparator''))
                   else m_tagNameFormat s1);
                auths = readAuths (iterate (property jsSource ''auth'')) (m_auths s1)
            in (s1\<lparr>m_name := name, m_additionalTokens := tokens, m_apis := apis,
                    m_tagNameFormat := tagNameFormat, m_auths := auths\<rparr>, p4)))"

text \<open>The constructor \<^verbatim>\<open>Source::Source\<close> (lines 55--202).\<close>

definition Source :: "(string \<Rightarrow> qjsEngine) \<Rightarrow> readWritePath \<Rightarrow> process \<Rightarrow> source \<times> process" where
  "Source buildJsEngine dir p0 =
     (let s0 = initialSource dir;
          (s1, p1) =
            (case modelJs dir of
               Some bytes \<Rightarrow> loadModel buildJsEngine bytes s0 p0
             | None \<Rightarrow>
                 (s0, logMsg (''Javascript model not found for '' @ [CHR 0x27] @ m_diskName s0
                                @ [CHR 0x27] @ '' in '' @ [CHR 0x27] @ modelJsPath dir
                                @ [CHR 0x27]) Warning p0));
          sites = (case sitesTxt dir of Some data \<Rightarrow> map Site (readLines data []) | None \<Rightarrow> []);
          p2 = (if sites = [] then logMsg (''No site for source '' @ m_name s1) Debug p1 else p1);
          supportedSites = (case supportedTxt dir of Some data \<Rightarrow> readLines data [] | None \<Rightarrow> [])
      in (s1\<lparr>m_sites := sites, m_supportedSites := supportedSites\<rparr>, p2))"





text \<open>\<^verbatim>\<open>Source::getApis\<close> and \<^verbatim>\<open>Source::getApi\<close> (lines 255 and 261--269).\<close>

definition getApis :: "source \<Rightarrow> api list" where
  "getApis s = m_apis s"

fun getApiIn :: "api list \<Rightarrow> string \<Rightarrow> api option" where
  "getApiIn [] name = None"
| "getApiIn (api # rest) name = (if getName api = name then Some api else getApiIn rest name)"

definition getApi :: "source \<Rightarrow> string \<Rightarrow> api option" where
  "getApi s name = getApiIn (getApis s) name"

section \<open>Documents used as concrete inputs\<close>

text \<open>
  The values of a few script expressions, written out as the accessors return them. A
  string primitive is no object, and its conversion to a number is the runtime's reading
  of the text: 0 for text that is not a numeric literal, which is the only text
  \<open>jsString\<close> is used with. A plain object converts to the text \<^verbatim>\<open>[object Object]\<close> and
  to the number 0, and the iterator enumerates its own properties. An array object has
  the property \<^verbatim>\<open>length\<close> and one property per index, all of which the iterator
  enumerates; the arrays used here hold objects or nothing, so their texts are the texts
  of the elements joined by commas and their conversion to a number is 0.
\<close>

definition jsString :: "string \<Rightarrow> jsvalue" where
  "jsString s = JSValue False False False s 0 0 [] []"

definition jsNumber :: "nat \<Rightarrow> jsvalue" where
  "jsNumber n = JSValue False False False (number n) (of_nat n) (of_nat n) [] []"

definition jsObject :: "(string \<times> jsvalue) list \<Rightarrow> jsvalue" where
  "jsObject ps = JSValue False True False ''[object Object]'' 0 0 (map fst ps) ps"

definition jsArray :: "jsvalue list \<Rightarrow> jsvalue" where
  "jsArray xs =
     JSValue False True False (join '','' (map toString xs)) 0 0
       (map number [0..<length xs] @ [''length''])
       (zip (map number [0..<length xs]) xs @ [(''length'', jsNumber (length xs))])"

text \<open>An error object as \<^verbatim>\<open>evaluate\<close> returns it for a program that throws.\<close>

definition jsError :: "string \<Rightarrow> nat \<Rightarrow> jsvalue" where
  "jsError message line =
     JSValue False True True message 0 0 [] [(''lineNumber'', jsNumber line)]"

definition userField :: jsvalue where
  "userField = jsObject [(''key'', jsString ''user''), (''type'', jsString ''text'')]"

definition passField :: jsvalue where
  "passField = jsObject [(''key'', jsString ''pass''), (''type'', jsString ''password'')]"

text \<open>
  \<^verbatim>\<open>{fields: [{key: "user", type: "text"}, {key: "pass", type: "password"}],
  check: {type: "max_page", value: 5}}\<close>: a scheme node with no \<^verbatim>\<open>type\<close>.
\<close>

definition urlScheme :: jsvalue where
  "urlScheme = jsObject
     [(''fields'', jsArray [userField, passField]),
      (''check'', jsObject [(''type'', jsString ''max_page''), (''value'', jsNumber 5)])]"

text \<open>\<^verbatim>\<open>{key: "pw", type: "hash", hash: algo, salt: "grabber"}\<close>.\<close>

definition hashFieldNode :: "string \<Rightarrow> jsvalue" where
  "hashFieldNode algo =
     jsObject [(''key'', jsString ''pw''), (''type'', jsString ''hash''),
               (''hash'', jsString algo), (''salt'', jsString ''grabber'')]"

text \<open>\<^verbatim>\<open>{key: "pw", type: "hash", salt: "grabber"}\<close>: a hash field without \<^verbatim>\<open>hash\<close>.\<close>

definition hashlessFieldNode :: jsvalue where
  "hashlessFieldNode =
     jsObject [(''key'', jsString ''pw''), (''type'', jsString ''hash''),
               (''salt'', jsString ''grabber'')]"

text \<open>
  \<^verbatim>\<open>{type: "get", url: "https://x/login"}\<close> and \<^verbatim>\<open>{type: "url"}\<close>, two scheme nodes, and a
  document that holds them under the ids \<^verbatim>\<open>login\<close> and \<^verbatim>\<open>anon\<close>, with two APIs.
\<close>

definition loginScheme :: jsvalue where
  "loginScheme = jsObject [(''type'', jsString ''get''), (''url'', jsString ''https://x/login'')]"

definition anonScheme :: jsvalue where
  "anonScheme = jsObject [(''type'', jsString ''url'')]"

definition sourceDocument :: jsvalue where
  "sourceDocument = jsObject
     [(''name'', jsString ''Danbooru''),
      (''apis'', jsObject [(''json'', jsObject []), (''html'', jsObject [])]),
      (''auth'', jsObject [(''login'', loginScheme), (''anon'', anonScheme)])]"

text \<open>An engine that evaluates every program to that document, and one that reports an
  error at line 3 for every program.\<close>

definition workingEngine :: "string \<Rightarrow> qjsEngine" where
  "workingEngine helperPath = QJSEngine (\<lambda>program fileName. sourceDocument)"

definition line3Error :: jsvalue where
  "line3Error = jsError ''SyntaxError: Unexpected token'' 3"

definition brokenEngine :: "string \<Rightarrow> qjsEngine" where
  "brokenEngine helperPath = QJSEngine (\<lambda>program fileName. line3Error)"

text \<open>
  A source directory with a \<^verbatim>\<open>model.js\<close>, a \<^verbatim>\<open>sites.txt\<close> of two URLs (the first line
  indented and ended by \<^verbatim>\<open>\r\n\<close>, then an empty line, then a line that starts with a tab)
  and a \<^verbatim>\<open>supported.txt\<close> of two URLs around a blank line.
\<close>

definition pluginDir :: readWritePath where
  "pluginDir =
     \<lparr>diskName = ''Danbooru'', helperJsPath = ''sites/Danbooru/../helper.js'',
      modelJsPath = ''sites/Danbooru/model.js'',
      modelJs = Some ''export var source = { apis: {} };'',
      sitesTxt = Some (''  danbooru.donmai.us '' @ [CR, LF, CR, LF, CHR 0x09]
                        @ ''safebooru.org'' @ [LF]),
      sitesTxtWritable = True,
      supportedTxt = Some (''danbooru.donmai.us'' @ [LF] @ '' '' @ [LF]
                            @ ''testbooru.donmai.us'')\<rparr>"


text \<open>The process before its first Source: no engine, no mutex, nothing logged.\<close>

definition firstProcess :: process where
  "firstProcess = \<lparr>engine = None, mutex = None, logged = []\<rparr>"

text \<open>A Source with three Apis, the first and the third of the same name.\<close>

definition twoJsonApis :: source where
  "twoJsonApis = (initialSource pluginDir)
     \<lparr>m_apis := [JavascriptApi (jsString ''first'') ''json'',
                 JavascriptApi (jsString ''second'') ''html'',
                 JavascriptApi (jsString ''third'') ''json'']\<rparr>"

section \<open>Notions the statements use\<close>





section \<open>The field and strategy builders\<close>

lemma number_0: "number 0 = ''0''"
  by code_simp

lemma number_1: "number (Suc 0) = ''1''"
  by code_simp

lemma buildFields_map:
  "i \<le> len \<Longrightarrow>
   buildFields v i len acc = acc @ map (\<lambda>k. buildField (propertyAt v k)) [unat i..<unat len]"
proof (induction v i len acc rule: buildFields.induct)
  case (1 v i len acc)
  show ?case
  proof (cases "i < len")
    case True
    then have "i + 1 \<le> len" by (simp add: inc_le)
    with 1 True show ?thesis
      by (subst buildFields.simps) (simp add: unat_inc upt_conv_Cons word_less_nat_alt)
  next
    case False
    with 1 have "i = len" by simp
    then show ?thesis by (subst buildFields.simps) simp
  qed
qed

text \<open>
  When the value read as \<^verbatim>\<open>fields\<close> is a list \<open>fs\<close> (its \<^verbatim>\<open>length\<close> is the length of \<open>fs\<close>
  and its element \<open>i\<close> is \<open>fs ! i\<close>), the loop builds one field per element, in order.
\<close>

lemma buildFields_list:
  assumes "unat len = length fs" and "\<forall>i < length fs. propertyAt v i = fs ! i"
  shows "buildFields v 0 len [] = map buildField fs"
proof -
  have "buildFields v 0 len [] =
          [] @ map (\<lambda>k. buildField (propertyAt v k)) [unat (0 :: 32 word)..<unat len]"
    by (rule buildFields_map) simp
  also have "\<dots> = map (\<lambda>k. buildField (propertyAt v k)) [0..<length fs]"
    by (simp only: assms(1) unat_0 append_Nil)
  also have "\<dots> = map buildField fs"
    by (rule nth_equalityI) (simp_all add: assms(2))
  finally show ?thesis .
qed

lemma property_absent: "map_of (props v) name = None \<Longrightarrow> property v name = undefinedValue"
  by (simp add: property_def)

lemma toString_undefined: "toString undefinedValue = ''undefined''"
  by (simp add: undefinedValue_def)


text \<open>
  C1. A scheme node whose \<^verbatim>\<open>type\<close>, read as a string, is none of \<^verbatim>\<open>oauth2\<close>, \<^verbatim>\<open>oauth1\<close>,
  \<^verbatim>\<open>http_basic\<close>, \<^verbatim>\<open>get\<close>, \<^verbatim>\<open>post\<close>, or whose \<^verbatim>\<open>type\<close> is absent, builds a \<open>UrlAuth\<close>; when
  its \<^verbatim>\<open>fields\<close> is the list \<open>fs\<close>, the fields of the result are the fields built from the
  elements of \<open>fs\<close>, in the order of \<open>fs\<close>. The page cap is \<^verbatim>\<open>check.value\<close> for a
  \<^verbatim>\<open>max_page\<close> check and 0 otherwise.
\<close>

theorem url_auth_for_other_types:
  assumes other:
      "toString (property auth ''type'')
         \<notin> {''oauth2'', ''oauth1'', ''http_basic'', ''get'', ''post''}
       \<or> map_of (props auth) ''type'' = None"
    and len: "unat (toUInt (property (property auth ''fields'') ''length'')) = length fs"
    and elems: "\<forall>i < length fs. propertyAt (property auth ''fields'') i = fs ! i"
  shows "buildAuth auth =
           Some (UrlAuth (toString (property auth ''type'')) (map buildField fs)
             (if isObject (property auth ''check'')
                 \<and> toString (property (property auth ''check'') ''type'') = ''max_page''
              then sint (toInt (property (property auth ''check'') ''value'')) else 0))"
proof -
  have ty: "toString (property auth ''type'')
              \<notin> {''oauth2'', ''oauth1'', ''http_basic'', ''get'', ''post''}"
    using other by (auto simp: property_absent toString_undefined)
  have fields: "buildFields (property auth ''fields'') 0
                  (toUInt (property (property auth ''fields'') ''length'')) [] = map buildField fs"
    using len elems by (rule buildFields_list)
  show ?thesis
    using ty by (simp add: buildAuth_def fields Let_def)
qed

theorem url_auth_for_other_types_witness:
  "buildAuth urlScheme =
     Some (UrlAuth ''undefined''
             [AuthField [] ''user'' Text [], AuthField [] ''pass'' Password []] 5)"
proof -
  have other:
    "toString (property urlScheme ''type'')
       \<notin> {''oauth2'', ''oauth1'', ''http_basic'', ''get'', ''post''}
     \<or> map_of (props urlScheme) ''type'' = None"
    by (simp add: urlScheme_def jsObject_def)
  have len: "unat (toUInt (property (property urlScheme ''fields'') ''length''))
               = length [userField, passField]"
    by (simp add: urlScheme_def jsObject_def jsArray_def jsNumber_def property_def
        number_0 number_1 upt_conv_Cons)
  have elems: "\<forall>i < length [userField, passField].
                 propertyAt (property urlScheme ''fields'') i = [userField, passField] ! i"
    by (simp add: urlScheme_def jsObject_def jsArray_def property_def propertyAt_def
        less_Suc_eq number_0 number_1 upt_conv_Cons)
  show ?thesis
    using url_auth_for_other_types [OF other len elems]
    by (simp add: buildField_def userField_def passField_def urlScheme_def jsObject_def
        jsString_def jsNumber_def property_def undefinedValue_def)
qed

text \<open>
  C2. A field node whose \<^verbatim>\<open>type\<close> reads \<^verbatim>\<open>hash\<close> builds an \<open>AuthHashField\<close>; its
  algorithm is \<open>Sha1\<close> exactly when the \<^verbatim>\<open>hash\<close> property reads as the string \<^verbatim>\<open>sha1\<close>,
  character for character, and \<open>Md5\<close> in every other case, an absent \<^verbatim>\<open>hash\<close> included.
\<close>

theorem hash_field_algorithm:
  assumes "toString (property field ''type'') = ''hash''"
  shows "buildField field =
           AuthHashField
             (if isUndefined (property field ''key'') then []
              else toString (property field ''key''))
             (if toString (property field ''hash'') = ''sha1'' then Sha1 else Md5)
             (toString (property field ''salt''))
         \<and> (hashAlgo (buildField field) = Sha1
              \<longleftrightarrow> toString (property field ''hash'') = ''sha1'')
         \<and> (hashAlgo (buildField field) = Md5
              \<longleftrightarrow> toString (property field ''hash'') \<noteq> ''sha1'')
         \<and> (map_of (props field) ''hash'' = None \<longrightarrow> hashAlgo (buildField field) = Md5)"
  using assms by (auto simp: buildField_def Let_def property_absent toString_undefined)

theorem hash_field_algorithm_witness:
  "buildField (hashFieldNode ''sha1'') = AuthHashField ''pw'' Sha1 ''grabber''
   \<and> buildField (hashFieldNode ''SHA1'') = AuthHashField ''pw'' Md5 ''grabber''
   \<and> buildField (hashFieldNode ''md5'') = AuthHashField ''pw'' Md5 ''grabber''
   \<and> buildField hashlessFieldNode = AuthHashField ''pw'' Md5 ''grabber''"
  using hash_field_algorithm [of "hashFieldNode ''sha1''"]
    hash_field_algorithm [of "hashFieldNode ''SHA1''"]
    hash_field_algorithm [of "hashFieldNode ''md5''"]
    hash_field_algorithm [of hashlessFieldNode]
  by (simp add: hashFieldNode_def hashlessFieldNode_def jsObject_def jsString_def property_def
      undefinedValue_def)

text \<open>
  C3. The claim has the value of a \<^verbatim>\<open>const\<close> field default to the empty string when the
  node has no \<^verbatim>\<open>value\<close>. Line 139 converts the property without the \<^verbatim>\<open>isUndefined\<close> test
  that lines 130, 131 and 142 make for \<^verbatim>\<open>id\<close>, \<^verbatim>\<open>key\<close> and \<^verbatim>\<open>def\<close>, and the conversion of
  the undefined value is the text \<^verbatim>\<open>undefined\<close>: the node \<^verbatim>\<open>{key: "k", type: "const"}\<close>
  builds a constant field whose value is that text.
\<close>

theorem const_field_without_value:
  "buildField (jsObject [(''key'', jsString ''k''), (''type'', jsString ''const'')]) =
     AuthConstField ''k'' ''undefined''"
  by (simp add: buildField_def jsObject_def jsString_def property_def undefinedValue_def)

section \<open>The constructor\<close>

lemma logged_logMsg: "logged (logMsg msg level p) = logged p @ [(level, msg)]"
  by (simp add: logMsg_def)

lemma mutex_logMsg: "mutex (logMsg msg level p) = mutex p"
  by (simp add: logMsg_def)

lemma fst_jsEngine_logMsg: "fst (jsEngine b dir (logMsg msg level p)) = fst (jsEngine b dir p)"
  by (simp add: jsEngine_def logMsg_def Let_def split: option.split)

lemma mutex_jsEngine: "mutex (snd (jsEngine b dir p)) = mutex p"
  by (simp add: jsEngine_def Let_def split: option.split)

lemma fst_evaluateModel:
  "fst (evaluateModel b bytes s p) =
     evaluate (fst (jsEngine b (m_dir s) p)) (modelProgram bytes) (modelJsPath (m_dir s))"
  by (simp add: evaluateModel_def Let_def split_beta fst_jsEngine_logMsg)

text \<open>Lines 70--75 leave the mutex as it is: they neither create nor lock it.\<close>

lemma mutex_evaluateModel: "mutex (snd (evaluateModel b bytes s p)) = mutex p"
  by (simp add: evaluateModel_def Let_def split_beta mutex_jsEngine mutex_logMsg)

lemma loadModel_error:
  assumes "isError (fst (evaluateModel b bytes s p))"
  shows "loadModel b bytes s p =
           (s\<lparr>m_jsSource := fst (evaluateModel b bytes s p)\<rparr>,
            logMsg (''Uncaught exception at line ''
                      @ numberInt (sint (toInt (property (fst (evaluateModel b bytes s p))
                                                  ''lineNumber'')))
                      @ '': '' @ toString (fst (evaluateModel b bytes s p))) Error
              (snd (evaluateModel b bytes s p)))"
  using assms by (simp add: loadModel_def Let_def split_beta)


lemma Source_model:
  assumes "modelJs dir = Some bytes"
  shows "fst (Source b dir p) =
           (fst (loadModel b bytes (initialSource dir) p))
             \<lparr>m_sites := (case sitesTxt dir of
                            Some data \<Rightarrow> map Site (readLines data []) | None \<Rightarrow> []),
              m_supportedSites := (case supportedTxt dir of
                                     Some data \<Rightarrow> readLines data [] | None \<Rightarrow> [])\<rparr>"
    and "snd (Source b dir p) =
           (if (case sitesTxt dir of
                  Some data \<Rightarrow> map Site (readLines data []) | None \<Rightarrow> []) = []
            then logMsg (''No site for source ''
                           @ m_name (fst (loadModel b bytes (initialSource dir) p))) Debug
                   (snd (loadModel b bytes (initialSource dir) p))
            else snd (loadModel b bytes (initialSource dir) p))"
  using assms by (simp_all add: Source_def Let_def split_beta)




subsection \<open>The mapping from scheme id to Auth\<close>










subsection \<open>A document that fails to evaluate\<close>

text \<open>
  C5. When \<^verbatim>\<open>model.js\<close> is there and its evaluation returns an error value \<open>js\<close>, the
  constructor still returns a Source: it keeps \<open>js\<close> as its document, its name is empty,
  it has no Api and no Auth, and the log holds, at the error level, the line
  \<^verbatim>\<open>Uncaught exception at line N: message\<close> with the line number and the text of \<open>js\<close>.
\<close>

theorem evaluation_error_keeps_source:
  assumes model: "modelJs dir = Some bytes"
    and js: "evaluate (fst (jsEngine buildJsEngine dir p)) (modelProgram bytes) (modelJsPath dir)
               = js"
    and err: "isError js"
  shows "m_jsSource (fst (Source buildJsEngine dir p)) = js
         \<and> m_name (fst (Source buildJsEngine dir p)) = []
         \<and> m_apis (fst (Source buildJsEngine dir p)) = []
         \<and> m_auths (fst (Source buildJsEngine dir p)) = Map.empty
         \<and> (Error, ''Uncaught exception at line ''
                      @ numberInt (sint (toInt (property js ''lineNumber'')))
                      @ '': '' @ toString js)
             \<in> set (logged (snd (Source buildJsEngine dir p)))"
proof -
  have dir: "m_dir (initialSource dir) = dir"
    by (simp add: initialSource_def)
  have ev: "fst (evaluateModel buildJsEngine bytes (initialSource dir) p) = js"
    by (simp add: fst_evaluateModel dir js)
  have load: "loadModel buildJsEngine bytes (initialSource dir) p =
           ((initialSource dir)\<lparr>m_jsSource := js\<rparr>,
            logMsg (''Uncaught exception at line ''
                      @ numberInt (sint (toInt (property js ''lineNumber'')))
                      @ '': '' @ toString js) Error
              (snd (evaluateModel buildJsEngine bytes (initialSource dir) p)))"
    using loadModel_error [of buildJsEngine bytes "initialSource dir" p] err
    by (simp only: ev)
  have init: "m_name (initialSource dir) = []" "m_apis (initialSource dir) = []"
    "m_auths (initialSource dir) = Map.empty"
    by (simp_all add: initialSource_def)
  show ?thesis
    by (simp add: Source_model [OF model] load init logged_logMsg)
qed

theorem evaluation_error_keeps_source_witness:
  "m_jsSource (fst (Source brokenEngine pluginDir firstProcess)) = line3Error
   \<and> m_name (fst (Source brokenEngine pluginDir firstProcess)) = []
   \<and> m_apis (fst (Source brokenEngine pluginDir firstProcess)) = []
   \<and> m_auths (fst (Source brokenEngine pluginDir firstProcess)) = Map.empty
   \<and> (Error, ''Uncaught exception at line 3: SyntaxError: Unexpected token'')
       \<in> set (logged (snd (Source brokenEngine pluginDir firstProcess)))"
proof -
  have model: "modelJs pluginDir = Some ''export var source = { apis: {} };''"
    by (simp add: pluginDir_def)
  have js: "evaluate (fst (jsEngine brokenEngine pluginDir firstProcess))
              (modelProgram ''export var source = { apis: {} };'') (modelJsPath pluginDir)
            = line3Error"
    by (simp add: jsEngine_def firstProcess_def brokenEngine_def Let_def)
  have err: "isError line3Error"
    by (simp add: line3Error_def jsError_def)
  have three: "number 3 = ''3''"
    by code_simp
  have line: "numberInt (sint (toInt (property line3Error ''lineNumber''))) = ''3''"
    by (simp add: line3Error_def jsError_def jsNumber_def property_def numberInt_def three)
  have msg: "toString line3Error = ''SyntaxError: Unexpected token''"
    by (simp add: line3Error_def jsError_def)
  show ?thesis
    using evaluation_error_keeps_source [OF model js err]
    by (simp only: line msg) simp
qed

subsection \<open>The runtime and its mutex\<close>

text \<open>
  C8. The claim has every call into the runtime made with the process-wide lock held,
  the evaluation of the document by the constructor included. The constructor calls
  \<^verbatim>\<open>engine->evaluate\<close> at line 75 and never calls \<^verbatim>\<open>lock\<close>; \<^verbatim>\<open>jsEngineMutex()\<close>, which
  creates the mutex, is first called at line 87, for the Apis. For the first Source of a
  process, made from a directory whose document evaluates, the document is evaluated while
  the mutex does not exist yet, and after the constructor the mutex is unlocked as created.
\<close>

theorem evaluation_takes_no_lock:
  "fst (evaluateModel workingEngine ''export var source = { apis: {} };''
          (initialSource pluginDir) firstProcess) = sourceDocument
   \<and> mutex (snd (evaluateModel workingEngine ''export var source = { apis: {} };''
          (initialSource pluginDir) firstProcess)) = None
   \<and> m_jsSource (fst (Source workingEngine pluginDir firstProcess)) = sourceDocument
   \<and> mutex (snd (Source workingEngine pluginDir firstProcess)) = Some Unlocked"
  by (simp add: Source_def loadModel_def evaluateModel_def jsEngine_def jsEngineMutex_def
      logMsg_def firstProcess_def pluginDir_def initialSource_def workingEngine_def
      sourceDocument_def jsObject_def jsString_def property_def iterate_def Let_def)

subsection \<open>The lines of \<^verbatim>\<open>sites.txt\<close> and \<^verbatim>\<open>supported.txt\<close>\<close>











section \<open>The endpoint list\<close>

































section \<open>Looking an Api up by name\<close>

lemma getApiIn_None: "getApiIn apis name = None \<longleftrightarrow> (\<forall>a \<in> set apis. getName a \<noteq> name)"
  by (induction apis) auto

lemma getApiIn_Some_first:
  assumes "getApiIn apis name = Some a"
  shows "\<exists>pre post. apis = pre @ a # post \<and> getName a = name
           \<and> (\<forall>b \<in> set pre. getName b \<noteq> name)"
  using assms
proof (induction apis)
  case Nil
  then show ?case by simp
next
  case (Cons x apis)
  show ?case
  proof (cases "getName x = name")
    case True
    with Cons.prems have "x = a" by simp
    with True have "x # apis = [] @ a # apis \<and> getName a = name
        \<and> (\<forall>b \<in> set []. getName b \<noteq> name)"
      by simp
    then show ?thesis by blast
  next
    case False
    with Cons obtain pre post where p: "apis = pre @ a # post" "getName a = name"
        "\<forall>b \<in> set pre. getName b \<noteq> name"
      by auto
    with False have "x # apis = (x # pre) @ a # post \<and> getName a = name
        \<and> (\<forall>b \<in> set (x # pre). getName b \<noteq> name)"
      by simp
    then show ?thesis by blast
  qed
qed

lemma getApiIn_first:
  assumes "getName a = name" and "\<forall>b \<in> set pre. getName b \<noteq> name"
  shows "getApiIn (pre @ a # post) name = Some a"
  using assms by (induction pre) auto

text \<open>
  C10. \<^verbatim>\<open>getApi\<close> returns null exactly when no Api of the list has the name; it returns
  an Api \<open>a\<close> exactly when \<open>a\<close> has the name and stands in the list after Apis that do
  not have it, that is, when \<open>a\<close> is the first Api of that name.
\<close>

theorem getApi_first_match:
  "(getApi s name = None \<longleftrightarrow> (\<forall>a \<in> set (getApis s). getName a \<noteq> name))
   \<and> (getApi s name = Some a \<longleftrightarrow>
        (\<exists>pre post. getApis s = pre @ a # post \<and> getName a = name
           \<and> (\<forall>b \<in> set pre. getName b \<noteq> name)))"
proof (intro conjI)
  show "getApi s name = None \<longleftrightarrow> (\<forall>a \<in> set (getApis s). getName a \<noteq> name)"
    by (simp add: getApi_def getApiIn_None)
  show "getApi s name = Some a \<longleftrightarrow>
        (\<exists>pre post. getApis s = pre @ a # post \<and> getName a = name
           \<and> (\<forall>b \<in> set pre. getName b \<noteq> name))"
  proof
    assume "getApi s name = Some a"
    then show "\<exists>pre post. getApis s = pre @ a # post \<and> getName a = name
           \<and> (\<forall>b \<in> set pre. getName b \<noteq> name)"
      unfolding getApi_def by (rule getApiIn_Some_first)
  next
    assume "\<exists>pre post. getApis s = pre @ a # post \<and> getName a = name
           \<and> (\<forall>b \<in> set pre. getName b \<noteq> name)"
    then obtain pre post where "getApis s = pre @ a # post" "getName a = name"
        "\<forall>b \<in> set pre. getName b \<noteq> name"
      by blast
    then show "getApi s name = Some a"
      by (simp add: getApi_def getApiIn_first)
  qed
qed

theorem getApi_first_match_witness:
  "getApi twoJsonApis ''json'' = Some (JavascriptApi (jsString ''first'') ''json'')
   \<and> getApi twoJsonApis ''html'' = Some (JavascriptApi (jsString ''second'') ''html'')
   \<and> getApi twoJsonApis ''rss'' = None"
  using getApi_first_match [of twoJsonApis "''rss''"]
    getApi_first_match [of twoJsonApis "''json''" "JavascriptApi (jsString ''first'') ''json''"]
  by (simp add: getApi_def getApis_def twoJsonApis_def)

end
